theory Spec2Isabelle
  imports Main "HOL-Library.Sublist"
begin

section \<open>JavaScript values, thrown values and observable effects\<close>

text \<open>
  The server of \<^verbatim>\<open>src/index.ts\<close> receives untyped tool arguments (\<^verbatim>\<open>args: unknown\<close>) and
  catches untyped thrown values (\<^verbatim>\<open>error: unknown\<close>). Both are JavaScript values. Strings are
  lists of bytes (UTF-8); the program only concatenates strings and tests them for emptiness
  and equality, which does not depend on the encoding. The program never reads the value of
  a number, so a number carries an integer.
\<close>

datatype jsval =
    JUndefined
  | JNull
  | JBool bool
  | JNumber int
  | JString string
  | JArray "jsval list"
  | JObject "(string \<times> jsval) list"

text \<open>A value of type \<^verbatim>\<open>T | undefined | null\<close>.\<close>

datatype 'a nullable = Undefined | Null | Value 'a

text \<open>The \<^verbatim>\<open>typeof\<close> operator.\<close>

fun typeof :: "jsval \<Rightarrow> string" where
  "typeof JUndefined = ''undefined''"
| "typeof JNull = ''object''"
| "typeof (JBool b) = ''boolean''"
| "typeof (JNumber n) = ''number''"
| "typeof (JString s) = ''string''"
| "typeof (JArray vs) = ''object''"
| "typeof (JObject ps) = ''object''"

text \<open>
  Property lookup \<^verbatim>\<open>v[k]\<close> on a value built from data: an object yields the property's
  value, everything else (and an object without the property) yields \<^verbatim>\<open>undefined\<close>. It is
  used for the keys \<^verbatim>\<open>code\<close> and \<^verbatim>\<open>siteId\<close> only, which no array and no primitive has.
\<close>

fun get_prop :: "jsval \<Rightarrow> string \<Rightarrow> jsval option" where
  "get_prop (JObject ps) k = map_of ps k"
| "get_prop v k = None"

text \<open>
  The issues of a validation error of the zod library, as far as the schema of this program
  can produce them: a value of the wrong type at a path (with the expected type), and a
  string shorter than the minimum (with the message the schema gives).
\<close>

datatype zod_issue =
    Invalid_type "string list" string
  | Too_small "string list" nat string

text \<open>
  What a \<^verbatim>\<open>throw\<close> can carry: \<^verbatim>\<open>new Error(message)\<close>, a \<^verbatim>\<open>TypeError\<close> of the runtime,
  the \<^verbatim>\<open>ZodError\<close> of a failed \<^verbatim>\<open>parse\<close>, and any value the remote client throws or
  rejects with. The first three are objects without a \<^verbatim>\<open>code\<close> property.
\<close>

datatype exn =
    Error string
  | TypeError
  | ZodError "zod_issue list"
  | Thrown jsval

text \<open>
  \<^verbatim>\<open>function isWebflowApiError(error) {
    return error !== null && typeof error === "object" && "code" in error; }\<close>
\<close>

fun isWebflowApiError :: "exn \<Rightarrow> bool" where
  "isWebflowApiError (Thrown v) =
     (v \<noteq> JNull \<and> typeof v = ''object'' \<and> get_prop v ''code'' \<noteq> None)"
| "isWebflowApiError e = False"

text \<open>The expression \<^verbatim>\<open>error.code\<close>, evaluated after \<open>isWebflowApiError\<close> has held.\<close>

fun error_code :: "exn \<Rightarrow> jsval" where
  "error_code (Thrown v) = (case get_prop v ''code'' of Some c \<Rightarrow> c | None \<Rightarrow> JUndefined)"
| "error_code e = JUndefined"

text \<open>The not-found test of the \<^verbatim>\<open>catch\<close> block of \<^verbatim>\<open>get_site\<close>.\<close>

definition is_not_found :: "exn \<Rightarrow> bool" where
  "is_not_found e = (isWebflowApiError e \<and> error_code e = JString ''NOT_FOUND'')"

section \<open>Sites and the remote client\<close>

text \<open>A \<^verbatim>\<open>Date\<close> is its time value.\<close>

type_synonym date = int

text \<open>
  Modelled from the spec: the \<^verbatim>\<open>Site\<close> type of the remote client's package is not part of
  the source. The spec's data model gives a site an identifier, a display name, a short name,
  a workspace identifier, and optional creation date, last-publish date and preview URL.
  The source reads all seven; every field but the identifier may be absent.
\<close>

record site =
  id_site :: string
  displayName :: "string nullable"
  shortName :: "string nullable"
  workspaceId :: "string nullable"
  createdOn :: "date nullable"
  lastPublished :: "date nullable"
  previewUrl :: "string nullable"

text \<open>
  The value of the \<^verbatim>\<open>sites\<close> property of the list response: an array of sites, or
  anything for which \<^verbatim>\<open>Array.isArray\<close> is false.
\<close>

datatype sites_value = SiteArray "site list" | NonArray jsval

record sites_response =
  sites :: sites_value

text \<open>
  The world outside the program: what \<^verbatim>\<open>webflow.sites.get(siteId)\<close> and
  \<^verbatim>\<open>webflow.sites.list()\<close> answer (\<open>Inl\<close>: the awaited call throws), and the
  locale-dependent \<^verbatim>\<open>Date.prototype.toLocaleString\<close>.
\<close>

record world =
  sites_get :: "string \<Rightarrow> exn + site nullable"
  sites_list :: "exn + sites_response"
  toLocaleString :: "date \<Rightarrow> string"

text \<open>What a handler does besides returning: remote calls and lines on the error console.\<close>

datatype event =
    RemoteGet string
  | RemoteList
  | ConsoleError string "exn option"

fun is_remote :: "event \<Rightarrow> bool" where
  "is_remote (RemoteGet s) = True"
| "is_remote RemoteList = True"
| "is_remote (ConsoleError m e) = False"

text \<open>A content item \<^verbatim>\<open>{ type: "text", text }\<close> and a tool result \<^verbatim>\<open>{ content }\<close>.\<close>

datatype content_item = TextContent (text_of: string)

record tool_result =
  content :: "content_item list"

type_synonym 'a outcome = "(exn + 'a) \<times> event list"

section \<open>Formatting\<close>

text \<open>
  \<^verbatim>\<open>function formatDate(date) { if (!date) return "N/A"; return date.toLocaleString(); }\<close>
  A \<^verbatim>\<open>Date\<close> object is truthy.
\<close>

fun formatDate :: "world \<Rightarrow> date nullable \<Rightarrow> string" where
  "formatDate w (Value d) = toLocaleString w d"
| "formatDate w Undefined = ''N/A''"
| "formatDate w Null = ''N/A''"

text \<open>A string-typed field inside a template literal: \<^verbatim>\<open>${site.displayName}\<close>.\<close>

fun interpolate :: "string nullable \<Rightarrow> string" where
  "interpolate (Value s) = s"
| "interpolate Undefined = ''undefined''"
| "interpolate Null = ''null''"

text \<open>\<^verbatim>\<open>site.previewUrl || "N/A"\<close>: the empty string is falsy as well.\<close>

fun or_NA :: "string nullable \<Rightarrow> string" where
  "or_NA (Value s) = (if s = [] then ''N/A'' else s)"
| "or_NA Undefined = ''N/A''"
| "or_NA Null = ''N/A''"

text \<open>The bullet character U+2022, in UTF-8.\<close>

definition bullet :: string where
  "bullet = [CHR 0xE2, CHR 0x80, CHR 0xA2]"

text \<open>The template literal \<^verbatim>\<open>formattedSite\<close> of \<^verbatim>\<open>get_site\<close>, with its indentation.\<close>

definition formattedSite :: "world \<Rightarrow> site \<Rightarrow> string" where
  "formattedSite w s =
     bullet @ '' Site Details:\<newline>'' @
     ''            ID: '' @ id_site s @ ''\<newline>'' @
     ''            Display Name: '' @ interpolate (displayName s) @ ''\<newline>'' @
     ''            Short Name: '' @ interpolate (shortName s) @ ''\<newline>'' @
     ''          \<newline>'' @
     ''          - Workspace Information:\<newline>'' @
     ''            Workspace ID: '' @ interpolate (workspaceId s) @ ''\<newline>'' @
     ''          \<newline>'' @
     ''          - Dates:\<newline>'' @
     ''            Created On: '' @ formatDate w (createdOn s) @ ''\<newline>'' @
     ''            Last Published: '' @ formatDate w (lastPublished s) @ ''\<newline>'' @
     ''          \<newline>'' @
     ''          - URLs:\<newline>'' @
     ''            Preview URL: '' @ or_NA (previewUrl s)"

section \<open>Input validation\<close>

text \<open>
  \<^verbatim>\<open>schemas.toolInputs.getSite = z.object({ siteId: z.string().min(1, "Site ID is required") })\<close>
  and its \<^verbatim>\<open>parse\<close>: the argument must be an object (not \<^verbatim>\<open>null\<close>, not an array), its
  \<^verbatim>\<open>siteId\<close> a string of length at least 1. \<^verbatim>\<open>parse\<close> throws a \<^verbatim>\<open>ZodError\<close> otherwise
  and returns \<^verbatim>\<open>{ siteId }\<close>, of which the handler takes \<^verbatim>\<open>siteId\<close>.
\<close>

definition getSite_parse :: "jsval \<Rightarrow> exn + string" where
  "getSite_parse args =
     (case args of
        JObject ps \<Rightarrow>
          (case map_of ps ''siteId'' of
             Some (JString s) \<Rightarrow>
               if length s < 1
               then Inl (ZodError [Too_small [''siteId''] 1 ''Site ID is required''])
               else Inr s
           | _ \<Rightarrow> Inl (ZodError [Invalid_type [''siteId''] ''string'']))
      | _ \<Rightarrow> Inl (ZodError [Invalid_type [] ''object'']))"

section \<open>The handler of get_site\<close>

text \<open>The body of the \<^verbatim>\<open>try\<close> block: one remote fetch, the falsy test, the formatting.\<close>

definition get_site_try :: "world \<Rightarrow> string \<Rightarrow> tool_result outcome" where
  "get_site_try w siteId =
     (case sites_get w siteId of
        Inl e \<Rightarrow> (Inl e, [RemoteGet siteId])
      | Inr (Value s) \<Rightarrow>
          (Inr \<lparr>content = [TextContent (formattedSite w s)]\<rparr>, [RemoteGet siteId])
      | Inr _ \<Rightarrow> (Inl (Error ''Site not found''), [RemoteGet siteId]))"

text \<open>The \<^verbatim>\<open>catch\<close> block.\<close>

definition get_site_catch :: "string \<Rightarrow> exn \<Rightarrow> tool_result outcome" where
  "get_site_catch siteId e =
     (if isWebflowApiError e \<and> error_code e = JString ''NOT_FOUND''
      then (Inr \<lparr>content = [TextContent (''Site with ID '' @ siteId @ '' not found.'')]\<rparr>, [])
      else (Inl (Error ''Failed to fetch site details''),
            [ConsoleError ''Error fetching site:'' (Some e)]))"

text \<open>The handler: the arguments are parsed before the \<^verbatim>\<open>try\<close> block is entered.\<close>

definition get_site :: "world \<Rightarrow> jsval \<Rightarrow> tool_result outcome" where
  "get_site w args =
     (case getSite_parse args of
        Inl e \<Rightarrow> (Inl e, [])
      | Inr siteId \<Rightarrow>
          (case get_site_try w siteId of
             (Inr r, evs) \<Rightarrow> (Inr r, evs)
           | (Inl e, evs) \<Rightarrow>
               (case get_site_catch siteId e of (r, evs') \<Rightarrow> (r, evs @ evs'))))"

section \<open>The handler of get_sites\<close>

text \<open>The template literal of one list entry; it starts and ends with a line break.\<close>

definition site_entry :: "world \<Rightarrow> site \<Rightarrow> string" where
  "site_entry w s =
     ''\<newline>'' @
     bullet @ '' Site: '' @ interpolate (displayName s) @ ''\<newline>'' @
     ''  - ID: '' @ id_site s @ ''\<newline>'' @
     ''  - Workspace: '' @ interpolate (workspaceId s) @ ''\<newline>'' @
     ''  - Created: '' @ formatDate w (createdOn s) @ ''\<newline>'' @
     ''  - Last Published: '' @ formatDate w (lastPublished s) @ ''\<newline>'' @
     ''  - Preview URL: '' @ or_NA (previewUrl s) @ ''\<newline>''"

text \<open>\<^verbatim>\<open>Array.prototype.join\<close> on an array of strings.\<close>

fun join :: "string \<Rightarrow> string list \<Rightarrow> string" where
  "join sep [] = []"
| "join sep [x] = x"
| "join sep (x # y # ys) = x @ sep @ join sep (y # ys)"

text \<open>The decimal digits of an array length, as \<^verbatim>\<open>${sites.length}\<close> prints them.\<close>

fun string_of_nat :: "nat \<Rightarrow> string" where
  "string_of_nat n =
     (if n < 10 then [''0123456789'' ! n]
      else string_of_nat (n div 10) @ [''0123456789'' ! (n mod 10)])"

declare string_of_nat.simps [simp del]

definition no_sites_found :: tool_result where
  "no_sites_found = \<lparr>content = [TextContent ''No sites found for this account.'']\<rparr>"

text \<open>The body of the \<^verbatim>\<open>try\<close> block: one remote list call, the emptiness test, the formatting.\<close>

definition get_sites_try :: "world \<Rightarrow> tool_result outcome" where
  "get_sites_try w =
     (case sites_list w of
        Inl e \<Rightarrow> (Inl e, [RemoteList])
      | Inr response \<Rightarrow>
          (case sites response of
             NonArray v \<Rightarrow> (Inr no_sites_found, [RemoteList])
           | SiteArray ss \<Rightarrow>
               if length ss = 0 then (Inr no_sites_found, [RemoteList])
               else
                 (Inr \<lparr>content =
                    [TextContent (''Found '' @ string_of_nat (length ss) @ '' sites:\<newline>'' @
                       join ''\<newline>'' (map (site_entry w) ss))]\<rparr>,
                  [RemoteList])))"

text \<open>The handler ignores its arguments; its \<^verbatim>\<open>catch\<close> block makes no distinction.\<close>

definition get_sites :: "world \<Rightarrow> jsval \<Rightarrow> tool_result outcome" where
  "get_sites w args =
     (case get_sites_try w of
        (Inr r, evs) \<Rightarrow> (Inr r, evs)
      | (Inl e, evs) \<Rightarrow>
          (Inl (Error ''Failed to fetch sites list''),
           evs @ [ConsoleError ''Error fetching sites:'' (Some e)]))"

section \<open>The tool registry\<close>

record property_schema =
  property_type :: string
  property_description :: string

record input_schema =
  schema_type :: string
  properties :: "(string \<times> property_schema) list"
  required :: "string list"

record tool_definition =
  name :: string
  description :: string
  inputSchema :: input_schema

definition TOOL_DEFINITIONS :: "tool_definition list" where
  "TOOL_DEFINITIONS =
     [\<lparr>name = ''get_site'',
       description = ''Retrieve detailed information about a specific Webflow site by ID, including workspace, creation date, display name, and publishing details'',
       inputSchema =
         \<lparr>schema_type = ''object'',
          properties =
            [(''siteId'',
              \<lparr>property_type = ''string'',
               property_description = ''The unique identifier of the Webflow site''\<rparr>)],
          required = [''siteId'']\<rparr>\<rparr>,
      \<lparr>name = ''get_sites'',
       description = ''Retrieve a list of all Webflow sites accessible to the authenticated user'',
       inputSchema = \<lparr>schema_type = ''object'', properties = [], required = []\<rparr>\<rparr>]"

section \<open>Dispatch\<close>

text \<open>
  \<^verbatim>\<open>toolHandlers\<close> is an object literal with the two own properties \<^verbatim>\<open>get_site\<close> and
  \<^verbatim>\<open>get_sites\<close>. The lookup \<^verbatim>\<open>toolHandlers[name]\<close> is an ordinary property read: a name
  that is no own property is looked up in the prototype of the literal,
  \<^verbatim>\<open>Object.prototype\<close>, and only a name found in neither yields \<^verbatim>\<open>undefined\<close>.
\<close>

datatype tool_handler = Get_site | Get_sites

datatype property_read = Own tool_handler | Inherited string | Absent

definition object_prototype_keys :: "string list" where
  "object_prototype_keys =
     [''constructor'', ''__defineGetter__'', ''__defineSetter__'', ''hasOwnProperty'',
      ''__lookupGetter__'', ''__lookupSetter__'', ''isPrototypeOf'', ''propertyIsEnumerable'',
      ''toString'', ''valueOf'', ''__proto__'', ''toLocaleString'']"

definition toolHandlers :: "string \<Rightarrow> property_read" where
  "toolHandlers nm =
     (if nm = ''get_site'' then Own Get_site
      else if nm = ''get_sites'' then Own Get_sites
      else if nm \<in> set object_prototype_keys then Inherited nm
      else Absent)"

text \<open>
  What \<^verbatim>\<open>handler(args)\<close> does when \<^verbatim>\<open>handler\<close> is a member of \<^verbatim>\<open>Object.prototype\<close>, called
  without a receiver: \<^verbatim>\<open>toString\<close> answers the tag of \<^verbatim>\<open>undefined\<close>; \<^verbatim>\<open>constructor\<close> is
  \<^verbatim>\<open>Object\<close> and answers the object made of its argument; \<^verbatim>\<open>isPrototypeOf\<close> answers
  \<^verbatim>\<open>false\<close> for an argument that is no object; \<^verbatim>\<open>__proto__\<close> reads as an object, which is
  not callable; every other member needs a receiver. The last two throw a \<^verbatim>\<open>TypeError\<close>.
\<close>

datatype builtin_value = ObjectTag string | BoolValue bool | ObjectOf jsval

definition call_inherited :: "string \<Rightarrow> jsval \<Rightarrow> exn + builtin_value" where
  "call_inherited p args =
     (if p = ''toString'' then Inr (ObjectTag ''[object Undefined]'')
      else if p = ''constructor'' then Inr (ObjectOf args)
      else if p = ''isPrototypeOf'' \<and> \<not> (typeof args = ''object'' \<and> args \<noteq> JNull)
        then Inr (BoolValue False)
      else Inl TypeError)"

datatype call_output = ToolOutput tool_result | BuiltinOutput builtin_value

fun tool_output :: "tool_result outcome \<Rightarrow> call_output outcome" where
  "tool_output (Inr r, evs) = (Inr (ToolOutput r), evs)"
| "tool_output (Inl e, evs) = (Inl e, evs)"

text \<open>The body of the \<^verbatim>\<open>try\<close> block of the \<^verbatim>\<open>CallToolRequestSchema\<close> handler.\<close>

definition call_tool_try :: "world \<Rightarrow> string \<Rightarrow> jsval \<Rightarrow> call_output outcome" where
  "call_tool_try w nm args =
     (case toolHandlers nm of
        Absent \<Rightarrow> (Inl (Error (''Unknown tool: '' @ nm)), [])
      | Own Get_site \<Rightarrow> tool_output (get_site w args)
      | Own Get_sites \<Rightarrow> tool_output (get_sites w args)
      | Inherited p \<Rightarrow>
          (case call_inherited p args of
             Inl e \<Rightarrow> (Inl e, [])
           | Inr v \<Rightarrow> (Inr (BuiltinOutput v), [])))"

text \<open>The handler: its \<^verbatim>\<open>catch\<close> block logs the error with the tool name and throws it again.\<close>

definition call_tool :: "world \<Rightarrow> string \<Rightarrow> jsval \<Rightarrow> call_output outcome" where
  "call_tool w nm args =
     (case call_tool_try w nm args of
        (Inr r, evs) \<Rightarrow> (Inr r, evs)
      | (Inl e, evs) \<Rightarrow>
          (Inl e, evs @ [ConsoleError (''Error executing tool '' @ nm @ '':'') (Some e)]))"

text \<open>The \<^verbatim>\<open>ListToolsRequestSchema\<close> handler.\<close>

definition list_tools :: "tool_definition list outcome" where
  "list_tools = (Inr TOOL_DEFINITIONS, [ConsoleError ''Tools requested by client'' None])"

section \<open>The server over a sequence of requests\<close>

datatype request = ListTools | CallTool string jsval

datatype response = Tools "tool_definition list" | Called call_output

fun handle_request :: "world \<Rightarrow> request \<Rightarrow> response outcome" where
  "handle_request w ListTools =
     (case list_tools of (Inr ts, evs) \<Rightarrow> (Inr (Tools ts), evs) | (Inl e, evs) \<Rightarrow> (Inl e, evs))"
| "handle_request w (CallTool nm args) =
     (case call_tool w nm args of
        (Inr r, evs) \<Rightarrow> (Inr (Called r), evs)
      | (Inl e, evs) \<Rightarrow> (Inl e, evs))"

text \<open>
  The server handles one request after the other, each against the world as it is when the
  request arrives; it keeps nothing between two requests.
\<close>

fun serve :: "(world \<times> request) list \<Rightarrow> (exn + response) list \<times> event list" where
  "serve [] = ([], [])"
| "serve ((w, r) # rest) =
     (case handle_request w r of
        (x, evs) \<Rightarrow> (case serve rest of (xs, evs') \<Rightarrow> (x # xs, evs @ evs')))"

section \<open>Properties of texts\<close>

text \<open>The pieces occur in the text one after the other, in the order of the list.\<close>

fun in_order :: "string list \<Rightarrow> string \<Rightarrow> bool" where
  "in_order [] t = True"
| "in_order (b # bs) t = (\<exists>pre rest. t = pre @ b @ rest \<and> in_order bs rest)"

section \<open>The renderings as the spec describes them\<close>

text \<open>
  The spec's formatting section, written down on its own, to compare the two templates of
  the source with: a text field is printed as it is (the spec leaves an absent one open; a
  template literal prints \<^verbatim>\<open>undefined\<close> or \<^verbatim>\<open>null\<close>), a date is printed in the default
  locale, and a missing date or preview URL is printed as \<^verbatim>\<open>N/A\<close>. An empty preview URL
  counts as missing.
\<close>

definition spec_text :: "string nullable \<Rightarrow> string" where
  "spec_text f = (case f of Value x \<Rightarrow> x | Undefined \<Rightarrow> ''undefined'' | Null \<Rightarrow> ''null'')"

definition spec_date :: "world \<Rightarrow> date nullable \<Rightarrow> string" where
  "spec_date w d = (case d of Value x \<Rightarrow> toLocaleString w x | Undefined \<Rightarrow> ''N/A'' | Null \<Rightarrow> ''N/A'')"

definition spec_url :: "string nullable \<Rightarrow> string" where
  "spec_url u =
     (case u of Value x \<Rightarrow> (if x = [] then ''N/A'' else x) | Undefined \<Rightarrow> ''N/A'' | Null \<Rightarrow> ''N/A'')"

text \<open>The labelled fields of the detail text of \<^verbatim>\<open>get_site\<close>, in their order.\<close>

definition spec_detail_fields :: "world \<Rightarrow> site \<Rightarrow> string list" where
  "spec_detail_fields w s =
     [''ID: '' @ id_site s,
      ''Display Name: '' @ spec_text (displayName s),
      ''Short Name: '' @ spec_text (shortName s),
      ''Workspace ID: '' @ spec_text (workspaceId s),
      ''Created On: '' @ spec_date w (createdOn s),
      ''Last Published: '' @ spec_date w (lastPublished s),
      ''Preview URL: '' @ spec_url (previewUrl s)]"

text \<open>The labelled fields of one entry of \<^verbatim>\<open>get_sites\<close>, in their order.\<close>

definition spec_entry_fields :: "world \<Rightarrow> site \<Rightarrow> string list" where
  "spec_entry_fields w s =
     [''Site: '' @ spec_text (displayName s),
      ''ID: '' @ id_site s,
      ''Workspace: '' @ spec_text (workspaceId s),
      ''Created: '' @ spec_date w (createdOn s),
      ''Last Published: '' @ spec_date w (lastPublished s),
      ''Preview URL: '' @ spec_url (previewUrl s)]"

text \<open>The number that a string of decimal digits denotes.\<close>

definition spec_decimal_value :: "string \<Rightarrow> nat" where
  "spec_decimal_value ds = foldl (\<lambda>a c. 10 * a + (of_char c - 48)) 0 ds"

section \<open>Example inputs\<close>

text \<open>The record of the spec's example, and a world that knows this one site.\<close>

definition example_site :: site where
  "example_site =
     \<lparr>id_site = ''abc123'', displayName = Value ''Demo'', shortName = Value ''demo'',
      workspaceId = Value ''w1'', createdOn = Null, lastPublished = Null, previewUrl = Null\<rparr>"

definition not_found_error :: exn where
  "not_found_error =
     Thrown (JObject [(''message'', JString ''Requested resource not found''),
                      (''code'', JString ''NOT_FOUND'')])"

definition network_error :: exn where
  "network_error = Thrown (JObject [(''message'', JString ''socket hang up'')])"

definition example_world :: world where
  "example_world =
     \<lparr>sites_get = (\<lambda>siteId. if siteId = ''abc123'' then Inr (Value example_site)
                              else Inl not_found_error),
      sites_list = Inr \<lparr>sites = SiteArray [example_site]\<rparr>,
      toLocaleString = (\<lambda>d. ''1/1/1970, 12:00:00 AM'')\<rparr>"

definition offline_world :: world where
  "offline_world =
     \<lparr>sites_get = (\<lambda>siteId. Inl network_error),
      sites_list = Inl network_error,
      toLocaleString = (\<lambda>d. ''1/1/1970, 12:00:00 AM'')\<rparr>"

definition empty_world :: world where
  "empty_world =
     \<lparr>sites_get = (\<lambda>siteId. Inr Undefined),
      sites_list = Inr \<lparr>sites = SiteArray []\<rparr>,
      toLocaleString = (\<lambda>d. ''1/1/1970, 12:00:00 AM'')\<rparr>"

text \<open>A second site, with a creation date and a preview URL, and a world with both sites.\<close>

definition second_site :: site where
  "second_site =
     \<lparr>id_site = ''def456'', displayName = Value ''Shop'', shortName = Value ''shop'',
      workspaceId = Value ''w2'', createdOn = Value 0, lastPublished = Undefined,
      previewUrl = Value ''https://shop.example/preview.png''\<rparr>"

definition two_site_world :: world where
  "two_site_world =
     \<lparr>sites_get = (\<lambda>siteId. if siteId = ''def456'' then Inr (Value second_site)
                              else Inl not_found_error),
      sites_list = Inr \<lparr>sites = SiteArray [example_site, second_site]\<rparr>,
      toLocaleString = (\<lambda>d. ''1/1/1970, 12:00:00 AM'')\<rparr>"

section \<open>Texts that hold pieces in order\<close>

lemma in_order_prepend: "in_order bs t \<Longrightarrow> in_order bs (p @ t)"
proof (cases bs)
  case Nil
  then show ?thesis by simp
next
  case (Cons b bs')
  assume "in_order bs t"
  with Cons obtain pre rest where "t = pre @ b @ rest" and "in_order bs' rest"
    by auto
  then have "p @ t = (p @ pre) @ b @ rest \<and> in_order bs' rest"
    by simp
  then show ?thesis
    unfolding Cons in_order.simps by blast
qed

lemma in_order_here: "in_order bs rest \<Longrightarrow> in_order (b # bs) (b @ rest)"
proof -
  assume "in_order bs rest"
  then have "b @ rest = [] @ b @ rest \<and> in_order bs rest"
    by simp
  then show ?thesis
    unfolding in_order.simps by blast
qed

lemma in_order_label:
  assumes "suffix l p" and "in_order bs rest"
  shows "in_order ((l @ v) # bs) (p @ v @ rest)"
proof -
  from assms(1) obtain q where "p = q @ l"
    by (auto simp: suffix_def)
  then have "p @ v @ rest = q @ (l @ v) @ rest"
    by simp
  with in_order_prepend [OF in_order_here [OF assms(2)]] show ?thesis
    by metis
qed

lemma in_order_label_last: "suffix l p \<Longrightarrow> in_order [l @ v] (p @ v)"
  using in_order_label [of l p "[]" "[]" v] by simp

lemma in_order_join: "in_order xs (join sep xs)"
proof (induction sep xs rule: join.induct)
  case (1 sep)
  show ?case by simp
next
  case (2 sep x)
  show ?case using in_order_here [of "[]" "[]" x] by simp
next
  case (3 sep x y ys)
  from in_order_prepend [OF "3.IH"]
  have "in_order (y # ys) (sep @ join sep (y # ys))" .
  from in_order_here [OF this] show ?case by simp
qed

lemma in_order_sublist: "in_order bs t \<Longrightarrow> b \<in> set bs \<Longrightarrow> sublist b t"
proof (induction bs arbitrary: t)
  case Nil
  then show ?case by simp
next
  case (Cons a bs)
  from Cons.prems(1) obtain pre rest where t: "t = pre @ a @ rest" and r: "in_order bs rest"
    by auto
  show ?case
  proof (cases "b = a")
    case True
    with t show ?thesis by simp
  next
    case False
    with Cons.prems(2) have "b \<in> set bs" by simp
    from Cons.IH [OF r this] have "sublist b rest" .
    then obtain u v where "rest = u @ b @ v"
      by (auto simp: sublist_def)
    with t have "t = (pre @ a @ u) @ b @ v" by simp
    then show ?thesis
      unfolding sublist_def by blast
  qed
qed

lemma found_text_in_order:
  "in_order (string_of_nat n # blocks) (''Found '' @ string_of_nat n @ '' sites:\<newline>'' @ join ''\<newline>'' blocks)"
  by (intro in_order_prepend in_order_here in_order_join)

section \<open>The two renderings of a site\<close>

lemma formattedSite_in_order:
  "in_order
     [''ID: '' @ id_site s,
      ''Display Name: '' @ interpolate (displayName s),
      ''Short Name: '' @ interpolate (shortName s),
      ''Workspace ID: '' @ interpolate (workspaceId s),
      ''Created On: '' @ formatDate w (createdOn s),
      ''Last Published: '' @ formatDate w (lastPublished s),
      ''Preview URL: '' @ or_NA (previewUrl s)]
     (formattedSite w s)"
  unfolding formattedSite_def
  by (rule in_order_label in_order_label_last in_order_prepend
      | simp add: suffix_Cons suffix_Nil)+

lemma site_entry_in_order:
  "in_order
     [''Site: '' @ interpolate (displayName s),
      ''ID: '' @ id_site s,
      ''Workspace: '' @ interpolate (workspaceId s),
      ''Created: '' @ formatDate w (createdOn s),
      ''Last Published: '' @ formatDate w (lastPublished s),
      ''Preview URL: '' @ or_NA (previewUrl s)]
     (site_entry w s)"
  unfolding site_entry_def
  by (rule in_order_label in_order_label_last in_order_prepend
      | simp add: suffix_Cons suffix_Nil)+

text \<open>The source's helpers print a field as the spec describes it.\<close>

lemma spec_text_interpolate: "spec_text f = interpolate f"
  by (cases f) (simp_all add: spec_text_def)

lemma spec_date_formatDate: "spec_date w d = formatDate w d"
  by (cases d) (simp_all add: spec_date_def)

lemma spec_url_or_NA: "spec_url u = or_NA u"
  by (cases u) (simp_all add: spec_url_def)

lemma formattedSite_holds_fields: "in_order (spec_detail_fields w s) (formattedSite w s)"
  unfolding spec_detail_fields_def spec_text_interpolate spec_date_formatDate spec_url_or_NA
  by (rule formattedSite_in_order)

lemma site_entry_holds_fields: "in_order (spec_entry_fields w s) (site_entry w s)"
  unfolding spec_entry_fields_def spec_text_interpolate spec_date_formatDate spec_url_or_NA
  by (rule site_entry_in_order)

lemma blocks_hold_fields:
  "list_all2 (\<lambda>s b. in_order (spec_entry_fields w s) b) ss (map (site_entry w) ss)"
  by (simp add: list_all2_map2 list_all2_same site_entry_holds_fields)

text \<open>An entry of the list does not depend on the short name, nor on the list itself.\<close>

lemma formatDate_other_list: "formatDate (w\<lparr>sites_list := x\<rparr>) d = formatDate w d"
  by (cases d) simp_all

lemma site_entry_ignores_shortName:
  "site_entry (w\<lparr>sites_list := x\<rparr>) (s\<lparr>shortName := y\<rparr>) = site_entry w s"
  by (simp add: site_entry_def formatDate_other_list)

lemma entries_ignore_shortName:
  "map (site_entry (w\<lparr>sites_list := x\<rparr>)) (map (\<lambda>s. s\<lparr>shortName := f s\<rparr>) ss) =
   map (site_entry w) ss"
  by (simp add: site_entry_ignores_shortName)

section \<open>The decimal digits of a number\<close>

lemma digit_codes: "map of_char ''0123456789'' = map (\<lambda>k. 48 + k) [0..<10::nat]"
  by code_simp

lemma digit_code:
  assumes "n < 10"
  shows "of_char (''0123456789'' ! n) = 48 + n"
proof -
  from assms have "of_char (''0123456789'' ! n) = map of_char ''0123456789'' ! n"
    by (intro nth_map [symmetric]) simp
  also from assms have "\<dots> = 48 + n"
    unfolding digit_codes by simp
  finally show ?thesis .
qed

lemma digit_member: "n < 10 \<Longrightarrow> ''0123456789'' ! n \<in> set ''0123456789''"
  by (rule nth_mem) simp

lemma string_of_nat_digits: "set (string_of_nat n) \<subseteq> set ''0123456789''"
proof (induction n rule: string_of_nat.induct)
  case (1 n)
  show ?case
  proof (cases "n < 10")
    case True
    then show ?thesis
      using digit_member [of n] by (simp add: string_of_nat.simps [of n])
  next
    case False
    have "n mod 10 < 10" by simp
    with False "1.IH" digit_member [of "n mod 10"] show ?thesis
      by (simp add: string_of_nat.simps [of n])
  qed
qed

lemma string_of_nat_value: "spec_decimal_value (string_of_nat n) = n"
proof (induction n rule: string_of_nat.induct)
  case (1 n)
  show ?case
  proof (cases "n < 10")
    case True
    then show ?thesis
      by (simp add: string_of_nat.simps [of n] spec_decimal_value_def digit_code)
  next
    case False
    have "n mod 10 < 10" by simp
    from digit_code [OF this] False "1.IH" show ?thesis
      by (simp add: string_of_nat.simps [of n] spec_decimal_value_def)
  qed
qed

lemma string_of_nat_not_empty: "string_of_nat n \<noteq> []"
  by (simp add: string_of_nat.simps [of n])

lemma string_of_nat_no_leading_zero: "0 < n \<Longrightarrow> hd (string_of_nat n) \<noteq> CHR ''0''"
proof (induction n rule: string_of_nat.induct)
  case (1 n)
  show ?case
  proof (cases "n < 10")
    case True
    from True have "(of_char (''0123456789'' ! n) :: nat) = 48 + n"
      by (rule digit_code)
    with "1.prems" have ne: "(of_char (''0123456789'' ! n) :: nat) \<noteq> 48"
      by linarith
    have "''0123456789'' ! n \<noteq> CHR ''0''"
    proof
      assume "''0123456789'' ! n = CHR ''0''"
      then have "(of_char (''0123456789'' ! n) :: nat) = of_char CHR ''0''"
        by (rule arg_cong)
      with ne show False
        by simp
    qed
    with True show ?thesis
      by (simp add: string_of_nat.simps [of n])
  next
    case False
    then have "0 < n div 10" by simp
    with False "1.IH" have "hd (string_of_nat (n div 10)) \<noteq> CHR ''0''"
      by simp
    with False show ?thesis
      by (simp add: string_of_nat.simps [of n] string_of_nat_not_empty)
  qed
qed

section \<open>The field lists of the example sites\<close>

lemma example_entry_fields:
  "spec_entry_fields two_site_world example_site =
     [''Site: Demo'', ''ID: abc123'', ''Workspace: w1'', ''Created: N/A'',
      ''Last Published: N/A'', ''Preview URL: N/A'']"
  by (simp add: spec_entry_fields_def example_site_def spec_text_def spec_date_def spec_url_def)

lemma second_entry_fields:
  "spec_entry_fields two_site_world second_site =
     [''Site: Shop'', ''ID: def456'', ''Workspace: w2'', ''Created: 1/1/1970, 12:00:00 AM'',
      ''Last Published: N/A'', ''Preview URL: https://shop.example/preview.png'']"
  by (simp add: spec_entry_fields_def second_site_def two_site_world_def
      spec_text_def spec_date_def spec_url_def)

lemma second_detail_fields:
  "spec_detail_fields two_site_world second_site =
     [''ID: def456'', ''Display Name: Shop'', ''Short Name: shop'', ''Workspace ID: w2'',
      ''Created On: 1/1/1970, 12:00:00 AM'', ''Last Published: N/A'',
      ''Preview URL: https://shop.example/preview.png'']"
  by (simp add: spec_detail_fields_def second_site_def two_site_world_def
      spec_text_def spec_date_def spec_url_def)

section \<open>Validation\<close>

lemma getSite_parse_ok:
  "get_prop args ''siteId'' = Some (JString siteId) \<Longrightarrow> siteId \<noteq> [] \<Longrightarrow>
   getSite_parse args = Inr siteId"
  by (cases args) (simp_all add: getSite_parse_def)

lemma getSite_parse_missing:
  "get_prop args ''siteId'' = None \<Longrightarrow>
   \<exists>path expected. getSite_parse args = Inl (ZodError [Invalid_type path expected])"
  by (cases args) (simp_all add: getSite_parse_def)

lemma getSite_parse_empty:
  "get_prop args ''siteId'' = Some (JString []) \<Longrightarrow>
   getSite_parse args = Inl (ZodError [Too_small [''siteId''] 1 ''Site ID is required''])"
  by (cases args) (simp_all add: getSite_parse_def)

lemma getSite_parse_error:
  "getSite_parse args = Inl e \<Longrightarrow> \<exists>issues. e = ZodError issues"
  by (auto simp: getSite_parse_def split: jsval.splits option.splits if_splits)

section \<open>What the handlers return\<close>

lemma get_site_found:
  assumes "get_prop args ''siteId'' = Some (JString siteId)" and "siteId \<noteq> []"
    and "sites_get w siteId = Inr (Value s)"
  shows "get_site w args =
           (Inr \<lparr>content = [TextContent (formattedSite w s)]\<rparr>, [RemoteGet siteId])"
proof -
  from assms(1,2) have "getSite_parse args = Inr siteId"
    by (rule getSite_parse_ok)
  moreover from assms(3) have "get_site_try w siteId =
      (Inr \<lparr>content = [TextContent (formattedSite w s)]\<rparr>, [RemoteGet siteId])"
    by (simp add: get_site_try_def)
  ultimately show ?thesis
    by (simp add: get_site_def)
qed

lemma get_site_remote_failure:
  assumes "get_prop args ''siteId'' = Some (JString siteId)" and "siteId \<noteq> []"
    and "sites_get w siteId = Inl e" and "\<not> is_not_found e"
  shows "get_site w args =
           (Inl (Error ''Failed to fetch site details''),
            [RemoteGet siteId, ConsoleError ''Error fetching site:'' (Some e)])"
proof -
  from assms(1,2) have "getSite_parse args = Inr siteId"
    by (rule getSite_parse_ok)
  moreover from assms(3) have "get_site_try w siteId = (Inl e, [RemoteGet siteId])"
    by (simp add: get_site_try_def)
  moreover from assms(4) have "get_site_catch siteId e =
      (Inl (Error ''Failed to fetch site details''),
       [ConsoleError ''Error fetching site:'' (Some e)])"
    by (simp add: get_site_catch_def is_not_found_def)
  ultimately show ?thesis
    by (simp add: get_site_def)
qed

lemma get_sites_found:
  assumes "sites_list w = Inr response" and "sites response = SiteArray ss" and "ss \<noteq> []"
  shows "get_sites w args =
           (Inr \<lparr>content =
              [TextContent (''Found '' @ string_of_nat (length ss) @ '' sites:\<newline>'' @
                 join ''\<newline>'' (map (site_entry w) ss))]\<rparr>,
            [RemoteList])"
  using assms by (simp add: get_sites_def get_sites_try_def)

lemma get_sites_remote_failure:
  assumes "sites_list w = Inl e"
  shows "get_sites w args =
           (Inl (Error ''Failed to fetch sites list''),
            [RemoteList, ConsoleError ''Error fetching sites:'' (Some e)])"
  using assms by (simp add: get_sites_def get_sites_try_def)

text \<open>
  The example of the spec: for the arguments \<^verbatim>\<open>{siteId: "abc123"}\<close> and the example record,
  the text holds \<^verbatim>\<open>ID: abc123\<close>, \<^verbatim>\<open>Display Name: Demo\<close>, \<^verbatim>\<open>Created On: N/A\<close> and
  \<^verbatim>\<open>Preview URL: N/A\<close>.
\<close>

lemma get_site_spec_example:
  "get_site example_world (JObject [(''siteId'', JString ''abc123'')]) =
     (Inr \<lparr>content = [TextContent (formattedSite example_world example_site)]\<rparr>,
      [RemoteGet ''abc123''])
   \<and> sublist ''ID: abc123'' (formattedSite example_world example_site)
   \<and> sublist ''Display Name: Demo'' (formattedSite example_world example_site)
   \<and> sublist ''Created On: N/A'' (formattedSite example_world example_site)
   \<and> sublist ''Preview URL: N/A'' (formattedSite example_world example_site)"
proof -
  note o = in_order_sublist [OF formattedSite_in_order [of example_site example_world]]
  have "get_site example_world (JObject [(''siteId'', JString ''abc123'')]) =
     (Inr \<lparr>content = [TextContent (formattedSite example_world example_site)]\<rparr>,
      [RemoteGet ''abc123''])"
    by (rule get_site_found) (simp_all add: example_world_def)
  moreover
  have "sublist (''ID: '' @ id_site example_site) (formattedSite example_world example_site)"
    by (rule o) simp
  moreover
  have "sublist (''Display Name: '' @ interpolate (displayName example_site))
      (formattedSite example_world example_site)"
    by (rule o) simp
  moreover
  have "sublist (''Created On: '' @ formatDate example_world (createdOn example_site))
      (formattedSite example_world example_site)"
    by (rule o) simp
  moreover
  have "sublist (''Preview URL: '' @ or_NA (previewUrl example_site))
      (formattedSite example_world example_site)"
    by (rule o) simp
  ultimately show ?thesis
    by (simp add: example_site_def)
qed

text \<open>The text of \<^verbatim>\<open>get_sites\<close> for the two example sites, character by character.\<close>

lemma get_sites_two_sites_example:
  "get_sites two_site_world JUndefined =
     (Inr \<lparr>content =
        [TextContent
           (''Found 2 sites:\<newline>'' @
            ''\<newline>'' @ bullet @ '' Site: Demo\<newline>'' @
            ''  - ID: abc123\<newline>'' @
            ''  - Workspace: w1\<newline>'' @
            ''  - Created: N/A\<newline>'' @
            ''  - Last Published: N/A\<newline>'' @
            ''  - Preview URL: N/A\<newline>'' @
            ''\<newline>'' @
            ''\<newline>'' @ bullet @ '' Site: Shop\<newline>'' @
            ''  - ID: def456\<newline>'' @
            ''  - Workspace: w2\<newline>'' @
            ''  - Created: 1/1/1970, 12:00:00 AM\<newline>'' @
            ''  - Last Published: N/A\<newline>'' @
            ''  - Preview URL: https://shop.example/preview.png\<newline>'')]\<rparr>,
      [RemoteList])"
  by (simp add: get_sites_def get_sites_try_def two_site_world_def site_entry_def
      example_site_def second_site_def string_of_nat.simps)

section \<open>What the dispatch handler returns\<close>

lemma call_tool_get_site:
  "call_tool w ''get_site'' args =
     (case get_site w args of
        (Inr r, evs) \<Rightarrow> (Inr (ToolOutput r), evs)
      | (Inl e, evs) \<Rightarrow>
          (Inl e, evs @ [ConsoleError ''Error executing tool get_site:'' (Some e)]))"
  by (cases "get_site w args" rule: tool_output.cases)
     (simp_all add: call_tool_def call_tool_try_def toolHandlers_def)

lemma call_tool_get_sites:
  "call_tool w ''get_sites'' args =
     (case get_sites w args of
        (Inr r, evs) \<Rightarrow> (Inr (ToolOutput r), evs)
      | (Inl e, evs) \<Rightarrow>
          (Inl e, evs @ [ConsoleError ''Error executing tool get_sites:'' (Some e)]))"
  by (cases "get_sites w args" rule: tool_output.cases)
     (simp_all add: call_tool_def call_tool_try_def toolHandlers_def)

lemma toolHandlers_absent:
  "nm \<noteq> ''get_site'' \<Longrightarrow> nm \<noteq> ''get_sites'' \<Longrightarrow> nm \<notin> set object_prototype_keys \<Longrightarrow>
   toolHandlers nm = Absent"
  by (simp add: toolHandlers_def)

lemma call_tool_absent:
  assumes "toolHandlers nm = Absent"
  shows "call_tool w nm args =
           (Inl (Error (''Unknown tool: '' @ nm)),
            [ConsoleError (''Error executing tool '' @ nm @ '':'')
               (Some (Error (''Unknown tool: '' @ nm)))])"
  using assms by (simp add: call_tool_def call_tool_try_def)

lemma handle_list_tools:
  "handle_request w ListTools =
     (Inr (Tools TOOL_DEFINITIONS), [ConsoleError ''Tools requested by client'' None])"
  by (simp add: list_tools_def)

lemma serve_append:
  "serve (xs @ ys) = (fst (serve xs) @ fst (serve ys), snd (serve xs) @ snd (serve ys))"
  by (induction xs) (auto split: prod.splits)

section \<open>The claims\<close>

text \<open>
  C1. When the remote fetch of \<^verbatim>\<open>get_site\<close> throws an error that carries the code
  \<^verbatim>\<open>NOT_FOUND\<close>, the handler throws nothing: it returns a result whose only content item
  is a text that contains the requested \<^verbatim>\<open>siteId\<close>, and the dispatch handler returns the
  same result.
\<close>

theorem get_site_not_found_is_success:
  assumes "get_prop args ''siteId'' = Some (JString siteId)" and "siteId \<noteq> []"
    and "sites_get w siteId = Inl e" and "is_not_found e"
  shows "get_site w args =
           (Inr \<lparr>content = [TextContent (''Site with ID '' @ siteId @ '' not found.'')]\<rparr>,
            [RemoteGet siteId])
         \<and> fst (call_tool w ''get_site'' args) =
             Inr (ToolOutput
                    \<lparr>content = [TextContent (''Site with ID '' @ siteId @ '' not found.'')]\<rparr>)
         \<and> sublist siteId (''Site with ID '' @ siteId @ '' not found.'')"
proof -
  from assms(1,2) have "getSite_parse args = Inr siteId"
    by (rule getSite_parse_ok)
  moreover from assms(3) have "get_site_try w siteId = (Inl e, [RemoteGet siteId])"
    by (simp add: get_site_try_def)
  moreover from assms(4) have "get_site_catch siteId e =
      (Inr \<lparr>content = [TextContent (''Site with ID '' @ siteId @ '' not found.'')]\<rparr>, [])"
    by (simp add: get_site_catch_def is_not_found_def)
  ultimately have main: "get_site w args =
      (Inr \<lparr>content = [TextContent (''Site with ID '' @ siteId @ '' not found.'')]\<rparr>,
       [RemoteGet siteId])"
    by (simp add: get_site_def)
  have sub: "sublist siteId (''Site with ID '' @ siteId @ '' not found.'')"
    by (rule sublist_appendI)
  from main sub show ?thesis
    by (simp add: call_tool_get_site)
qed

theorem get_site_not_found_is_success_witness:
  "get_prop (JObject [(''siteId'', JString ''xyz'')]) ''siteId'' = Some (JString ''xyz'')
   \<and> sites_get example_world ''xyz'' = Inl not_found_error
   \<and> is_not_found not_found_error
   \<and> get_site example_world (JObject [(''siteId'', JString ''xyz'')]) =
       (Inr \<lparr>content = [TextContent ''Site with ID xyz not found.'']\<rparr>, [RemoteGet ''xyz''])
   \<and> fst (call_tool example_world ''get_site'' (JObject [(''siteId'', JString ''xyz'')])) =
       Inr (ToolOutput \<lparr>content = [TextContent ''Site with ID xyz not found.'']\<rparr>)"
  using get_site_not_found_is_success
          [of "JObject [(''siteId'', JString ''xyz'')]" "''xyz''" example_world not_found_error]
  by (simp add: example_world_def not_found_error_def is_not_found_def)

text \<open>
  C2, as amended. The text that \<^verbatim>\<open>get_site\<close> returns lists, each under its label and in
  this order, the identifier, the display name, the short name, the workspace id, the
  creation date, the last-published date and the preview URL. The text that \<^verbatim>\<open>get_sites\<close>
  returns holds one entry for every site, in the order of the list; an entry lists the
  display name, the identifier, the workspace id, the creation date, the last-published date
  and the preview URL, in this order, and does not print the short name: the text is the
  same whatever the short names of the sites are. In both texts a creation date,
  last-published date or preview URL that is missing is printed as \<^verbatim>\<open>N/A\<close>, and one that
  is present is printed (a date as \<^verbatim>\<open>toLocaleString\<close> gives it).
\<close>

theorem site_renderings_field_order:
  "(get_prop args ''siteId'' = Some (JString siteId) \<and> siteId \<noteq> [] \<and>
    sites_get w siteId = Inr (Value s) \<longrightarrow>
      (\<exists>t. fst (get_site w args) = Inr \<lparr>content = [TextContent t]\<rparr>
         \<and> in_order (spec_detail_fields w s) t))
   \<and> (sites_list w = Inr response \<and> sites response = SiteArray ss \<and> ss \<noteq> [] \<longrightarrow>
      (\<exists>t blocks. fst (get_sites w args) = Inr \<lparr>content = [TextContent t]\<rparr>
         \<and> in_order blocks t
         \<and> list_all2 (\<lambda>s' b. in_order (spec_entry_fields w s') b) ss blocks
         \<and> fst (get_sites
                  (w\<lparr>sites_list :=
                       Inr \<lparr>sites = SiteArray (map (\<lambda>s'. s'\<lparr>shortName := f s'\<rparr>) ss)\<rparr>\<rparr>)
                  args) =
             Inr \<lparr>content = [TextContent t]\<rparr>))"
proof (intro conjI impI)
  assume "get_prop args ''siteId'' = Some (JString siteId) \<and> siteId \<noteq> [] \<and>
    sites_get w siteId = Inr (Value s)"
  then have "get_site w args =
      (Inr \<lparr>content = [TextContent (formattedSite w s)]\<rparr>, [RemoteGet siteId])"
    by (intro get_site_found) simp_all
  then have "fst (get_site w args) = Inr \<lparr>content = [TextContent (formattedSite w s)]\<rparr>
      \<and> in_order (spec_detail_fields w s) (formattedSite w s)"
    by (simp add: formattedSite_holds_fields)
  then show "\<exists>t. fst (get_site w args) = Inr \<lparr>content = [TextContent t]\<rparr>
      \<and> in_order (spec_detail_fields w s) t"
    by blast
next
  let ?w' = "w\<lparr>sites_list :=
               Inr \<lparr>sites = SiteArray (map (\<lambda>s'. s'\<lparr>shortName := f s'\<rparr>) ss)\<rparr>\<rparr>"
  let ?blocks = "map (site_entry w) ss"
  let ?t = "''Found '' @ string_of_nat (length ss) @ '' sites:\<newline>'' @ join ''\<newline>'' ?blocks"
  assume a: "sites_list w = Inr response \<and> sites response = SiteArray ss \<and> ss \<noteq> []"
  then have a1: "sites_list w = Inr response" and a2: "sites response = SiteArray ss"
    and a3: "ss \<noteq> []"
    by blast+
  have "get_sites w args = (Inr \<lparr>content = [TextContent ?t]\<rparr>, [RemoteList])"
    by (rule get_sites_found [OF a1 a2 a3])
  then have 1: "fst (get_sites w args) = Inr \<lparr>content = [TextContent ?t]\<rparr>"
    by simp
  have 2: "in_order ?blocks ?t"
    by (intro in_order_prepend in_order_join)
  have 3: "list_all2 (\<lambda>s' b. in_order (spec_entry_fields w s') b) ss ?blocks"
    by (rule blocks_hold_fields)
  have "get_sites ?w' args =
      (Inr \<lparr>content =
         [TextContent (''Found '' @
            string_of_nat (length (map (\<lambda>s'. s'\<lparr>shortName := f s'\<rparr>) ss)) @ '' sites:\<newline>'' @
            join ''\<newline>'' (map (site_entry ?w') (map (\<lambda>s'. s'\<lparr>shortName := f s'\<rparr>) ss)))]\<rparr>,
       [RemoteList])"
  proof (rule get_sites_found)
    show "sites_list ?w' =
        Inr \<lparr>sites = SiteArray (map (\<lambda>s'. s'\<lparr>shortName := f s'\<rparr>) ss)\<rparr>"
      by simp
    show "sites \<lparr>sites = SiteArray (map (\<lambda>s'. s'\<lparr>shortName := f s'\<rparr>) ss)\<rparr> =
        SiteArray (map (\<lambda>s'. s'\<lparr>shortName := f s'\<rparr>) ss)"
      by simp
    from a3 show "map (\<lambda>s'. s'\<lparr>shortName := f s'\<rparr>) ss \<noteq> []"
      by simp
  qed
  then have 4: "fst (get_sites ?w' args) = Inr \<lparr>content = [TextContent ?t]\<rparr>"
    by (simp only: entries_ignore_shortName length_map fst_conv)
  from 1 2 3 4
  show "\<exists>t blocks. fst (get_sites w args) = Inr \<lparr>content = [TextContent t]\<rparr>
         \<and> in_order blocks t
         \<and> list_all2 (\<lambda>s' b. in_order (spec_entry_fields w s') b) ss blocks
         \<and> fst (get_sites ?w' args) = Inr \<lparr>content = [TextContent t]\<rparr>"
    by blast
qed

theorem site_renderings_field_order_witness:
  "get_prop (JObject [(''siteId'', JString ''def456'')]) ''siteId'' = Some (JString ''def456'')
   \<and> sites_get two_site_world ''def456'' = Inr (Value second_site)
   \<and> sites_list two_site_world = Inr \<lparr>sites = SiteArray [example_site, second_site]\<rparr>
   \<and> (\<exists>t. fst (get_site two_site_world (JObject [(''siteId'', JString ''def456'')])) =
             Inr \<lparr>content = [TextContent t]\<rparr>
          \<and> in_order
               [''ID: def456'', ''Display Name: Shop'', ''Short Name: shop'', ''Workspace ID: w2'',
                ''Created On: 1/1/1970, 12:00:00 AM'', ''Last Published: N/A'',
                ''Preview URL: https://shop.example/preview.png''] t)
   \<and> (\<exists>t b1 b2.
          fst (get_sites two_site_world (JObject [(''siteId'', JString ''def456'')])) =
            Inr \<lparr>content = [TextContent t]\<rparr>
          \<and> in_order [b1, b2] t
          \<and> in_order
               [''Site: Demo'', ''ID: abc123'', ''Workspace: w1'', ''Created: N/A'',
                ''Last Published: N/A'', ''Preview URL: N/A''] b1
          \<and> in_order
               [''Site: Shop'', ''ID: def456'', ''Workspace: w2'',
                ''Created: 1/1/1970, 12:00:00 AM'', ''Last Published: N/A'',
                ''Preview URL: https://shop.example/preview.png''] b2
          \<and> fst (get_sites
                   (two_site_world\<lparr>sites_list :=
                      Inr \<lparr>sites = SiteArray
                        (map (\<lambda>s. s\<lparr>shortName := Null\<rparr>) [example_site, second_site])\<rparr>\<rparr>)
                   (JObject [(''siteId'', JString ''def456'')])) =
              Inr \<lparr>content = [TextContent t]\<rparr>)"
proof -
  let ?args = "JObject [(''siteId'', JString ''def456'')]"
  let ?r = "\<lparr>sites = SiteArray [example_site, second_site]\<rparr>"
  note inst = site_renderings_field_order
    [where args = ?args and siteId = "''def456''" and w = two_site_world and s = second_site
       and response = ?r and ss = "[example_site, second_site]" and f = "\<lambda>s. Null"]
  have h1: "get_prop ?args ''siteId'' = Some (JString ''def456'') \<and> ''def456'' \<noteq> [] \<and>
      sites_get two_site_world ''def456'' = Inr (Value second_site)"
    by (simp add: two_site_world_def)
  have h2: "sites_list two_site_world = Inr ?r \<and> sites ?r = SiteArray [example_site, second_site]
      \<and> [example_site, second_site] \<noteq> []"
    by (simp add: two_site_world_def)
  from inst h1 obtain t where t: "fst (get_site two_site_world ?args) =
      Inr \<lparr>content = [TextContent t]\<rparr>"
    "in_order (spec_detail_fields two_site_world second_site) t"
    by blast
  from inst h2 obtain t' blocks where t': "fst (get_sites two_site_world ?args) =
      Inr \<lparr>content = [TextContent t']\<rparr>"
    "in_order blocks t'"
    "list_all2 (\<lambda>s' b. in_order (spec_entry_fields two_site_world s') b)
       [example_site, second_site] blocks"
    "fst (get_sites
            (two_site_world\<lparr>sites_list :=
               Inr \<lparr>sites = SiteArray
                 (map (\<lambda>s. s\<lparr>shortName := Null\<rparr>) [example_site, second_site])\<rparr>\<rparr>)
            ?args) =
       Inr \<lparr>content = [TextContent t']\<rparr>"
    by blast
  from t'(3) obtain b1 b2 where b: "blocks = [b1, b2]"
    "in_order (spec_entry_fields two_site_world example_site) b1"
    "in_order (spec_entry_fields two_site_world second_site) b2"
    by (auto simp: list_all2_Cons1)
  from h1 h2 t t' b show ?thesis
    unfolding example_entry_fields second_entry_fields second_detail_fields
    by blast
qed

text \<open>
  C2 as stated fails for \<^verbatim>\<open>get_sites\<close>: the entry of the spec's example site does not hold
  the seven fields in the order identifier, display name, short name, workspace id,
  creation date, last-published date, preview URL, since the short name \<^verbatim>\<open>demo\<close> occurs
  nowhere in it.
\<close>

theorem site_entry_field_order_counterexample:
  "\<not> in_order
       [id_site example_site,
        interpolate (displayName example_site),
        interpolate (shortName example_site),
        interpolate (workspaceId example_site),
        formatDate example_world (createdOn example_site),
        formatDate example_world (lastPublished example_site),
        or_NA (previewUrl example_site)]
       (site_entry example_world example_site)"
proof
  assume "in_order
       [id_site example_site,
        interpolate (displayName example_site),
        interpolate (shortName example_site),
        interpolate (workspaceId example_site),
        formatDate example_world (createdOn example_site),
        formatDate example_world (lastPublished example_site),
        or_NA (previewUrl example_site)]
       (site_entry example_world example_site)"
  then have "sublist (interpolate (shortName example_site))
               (site_entry example_world example_site)"
    by (rule in_order_sublist) simp
  then show False
    by (simp add: site_entry_def example_site_def bullet_def sublist_Cons_right prefix_Cons)
qed

text \<open>
  C3. A remote failure of \<^verbatim>\<open>get_site\<close> that is not the not-found condition makes the
  handler throw \<^verbatim>\<open>Error("Failed to fetch site details")\<close>, and any remote failure of
  \<^verbatim>\<open>get_sites\<close> makes the handler throw \<^verbatim>\<open>Error("Failed to fetch sites list")\<close>. The
  thrown error does not depend on the caught one, and the dispatch handler throws the very
  same error.
\<close>

theorem remote_failure_raises_generic_error:
  "(get_prop args ''siteId'' = Some (JString siteId) \<and> siteId \<noteq> [] \<and>
    sites_get w siteId = Inl e \<and> \<not> is_not_found e \<longrightarrow>
      fst (get_site w args) = Inl (Error ''Failed to fetch site details'') \<and>
      fst (call_tool w ''get_site'' args) = Inl (Error ''Failed to fetch site details''))
   \<and> (sites_list w = Inl e' \<longrightarrow>
      fst (get_sites w args) = Inl (Error ''Failed to fetch sites list'') \<and>
      fst (call_tool w ''get_sites'' args) = Inl (Error ''Failed to fetch sites list''))"
proof (intro conjI impI)
  assume a: "get_prop args ''siteId'' = Some (JString siteId) \<and> siteId \<noteq> [] \<and>
    sites_get w siteId = Inl e \<and> \<not> is_not_found e"
  then have g: "get_site w args =
           (Inl (Error ''Failed to fetch site details''),
            [RemoteGet siteId, ConsoleError ''Error fetching site:'' (Some e)])"
    by (intro get_site_remote_failure) simp_all
  then show "fst (get_site w args) = Inl (Error ''Failed to fetch site details'')"
    by simp
  from g show "fst (call_tool w ''get_site'' args) = Inl (Error ''Failed to fetch site details'')"
    by (simp add: call_tool_get_site)
next
  assume "sites_list w = Inl e'"
  then have g: "get_sites w args =
           (Inl (Error ''Failed to fetch sites list''),
            [RemoteList, ConsoleError ''Error fetching sites:'' (Some e')])"
    by (rule get_sites_remote_failure)
  then show "fst (get_sites w args) = Inl (Error ''Failed to fetch sites list'')"
    by simp
  from g show "fst (call_tool w ''get_sites'' args) = Inl (Error ''Failed to fetch sites list'')"
    by (simp add: call_tool_get_sites)
qed

theorem remote_failure_raises_generic_error_witness:
  "get_prop (JObject [(''siteId'', JString ''abc123'')]) ''siteId'' = Some (JString ''abc123'')
   \<and> sites_get offline_world ''abc123'' = Inl network_error
   \<and> sites_list offline_world = Inl network_error
   \<and> \<not> is_not_found network_error
   \<and> fst (call_tool offline_world ''get_site'' (JObject [(''siteId'', JString ''abc123'')])) =
       Inl (Error ''Failed to fetch site details'')
   \<and> fst (call_tool offline_world ''get_sites'' JUndefined) =
       Inl (Error ''Failed to fetch sites list'')"
  using remote_failure_raises_generic_error
          [of "JObject [(''siteId'', JString ''abc123'')]" "''abc123''" offline_world
              network_error network_error]
        remote_failure_raises_generic_error
          [of JUndefined "''abc123''" offline_world network_error network_error]
  by (simp add: offline_world_def network_error_def is_not_found_def)

text \<open>
  C4. When the arguments of \<^verbatim>\<open>get_site\<close> have no \<^verbatim>\<open>siteId\<close> or an empty one, the handler
  and the dispatch handler throw the validation error, and no remote call is made.
\<close>

theorem invalid_siteId_fails_validation:
  assumes "get_prop args ''siteId'' = None \<or> get_prop args ''siteId'' = Some (JString [])"
  shows "\<exists>issues. get_site w args = (Inl (ZodError issues), [])
           \<and> call_tool w ''get_site'' args =
               (Inl (ZodError issues),
                [ConsoleError ''Error executing tool get_site:'' (Some (ZodError issues))])
           \<and> filter is_remote (snd (call_tool w ''get_site'' args)) = []"
proof -
  from assms obtain issues where "getSite_parse args = Inl (ZodError issues)"
    using getSite_parse_missing getSite_parse_empty by blast
  then have "get_site w args = (Inl (ZodError issues), [])"
    by (simp add: get_site_def)
  then show ?thesis
    by (simp add: call_tool_get_site)
qed

theorem invalid_siteId_fails_validation_witness:
  "get_prop (JObject [(''siteId'', JString '''')]) ''siteId'' = Some (JString [])
   \<and> get_prop (JObject []) ''siteId'' = None
   \<and> (\<exists>issues. get_site example_world (JObject [(''siteId'', JString '''')]) =
         (Inl (ZodError issues), []))
   \<and> (\<exists>issues. get_site example_world (JObject []) = (Inl (ZodError issues), []))"
  using invalid_siteId_fails_validation [of "JObject [(''siteId'', JString '''')]" example_world]
        invalid_siteId_fails_validation [of "JObject []" example_world]
  by auto

text \<open>
  C5. When the remote list holds at least one site, \<^verbatim>\<open>get_sites\<close> returns a result with
  exactly one content item. Its text starts with \<^verbatim>\<open>Found n sites:\<close>, where \<^verbatim>\<open>n\<close> is the
  number of sites in decimal digits without a leading zero, and holds after this number one
  block for every site, in the order of the list; the block of a site lists the display
  name, the identifier, the workspace id, the creation date, the last-published date and the
  preview URL of this site.
\<close>

theorem get_sites_lists_every_site_in_order:
  assumes "sites_list w = Inr response" and "sites response = SiteArray ss" and "ss \<noteq> []"
  shows "\<exists>t count blocks.
           get_sites w args = (Inr \<lparr>content = [TextContent t]\<rparr>, [RemoteList])
           \<and> fst (call_tool w ''get_sites'' args) = Inr (ToolOutput \<lparr>content = [TextContent t]\<rparr>)
           \<and> prefix (''Found '' @ count @ '' sites:'') t
           \<and> set count \<subseteq> set ''0123456789'' \<and> hd count \<noteq> CHR ''0''
           \<and> spec_decimal_value count = length ss
           \<and> in_order (count # blocks) t
           \<and> list_all2 (\<lambda>s b. in_order (spec_entry_fields w s) b) ss blocks"
proof -
  let ?count = "string_of_nat (length ss)"
  let ?blocks = "map (site_entry w) ss"
  let ?t = "''Found '' @ ?count @ '' sites:\<newline>'' @ join ''\<newline>'' ?blocks"
  have g: "get_sites w args = (Inr \<lparr>content = [TextContent ?t]\<rparr>, [RemoteList])"
    using assms by (rule get_sites_found)
  then have c: "fst (call_tool w ''get_sites'' args) =
      Inr (ToolOutput \<lparr>content = [TextContent ?t]\<rparr>)"
    by (simp add: call_tool_get_sites)
  have "?t = (''Found '' @ ?count @ '' sites:'') @ ''\<newline>'' @ join ''\<newline>'' ?blocks"
    by simp
  then have p: "prefix (''Found '' @ ?count @ '' sites:'') ?t"
    by (metis prefixI)
  have d: "set ?count \<subseteq> set ''0123456789''"
    by (rule string_of_nat_digits)
  from assms(3) have z: "hd ?count \<noteq> CHR ''0''"
    by (intro string_of_nat_no_leading_zero) simp
  have v: "spec_decimal_value ?count = length ss"
    by (rule string_of_nat_value)
  have o: "in_order (?count # ?blocks) ?t"
    by (rule found_text_in_order)
  have b: "list_all2 (\<lambda>s b. in_order (spec_entry_fields w s) b) ss ?blocks"
    by (rule blocks_hold_fields)
  from g c p d z v o b show ?thesis
    by blast
qed

theorem get_sites_lists_every_site_in_order_witness:
  "sites_list two_site_world = Inr \<lparr>sites = SiteArray [example_site, second_site]\<rparr>
   \<and> [example_site, second_site] \<noteq> []
   \<and> (\<exists>t count b1 b2.
          get_sites two_site_world JUndefined = (Inr \<lparr>content = [TextContent t]\<rparr>, [RemoteList])
          \<and> prefix (''Found '' @ count @ '' sites:'') t
          \<and> spec_decimal_value count = 2
          \<and> in_order [count, b1, b2] t
          \<and> in_order
               [''Site: Demo'', ''ID: abc123'', ''Workspace: w1'', ''Created: N/A'',
                ''Last Published: N/A'', ''Preview URL: N/A''] b1
          \<and> in_order
               [''Site: Shop'', ''ID: def456'', ''Workspace: w2'',
                ''Created: 1/1/1970, 12:00:00 AM'', ''Last Published: N/A'',
                ''Preview URL: https://shop.example/preview.png''] b2)"
proof -
  let ?r = "\<lparr>sites = SiteArray [example_site, second_site]\<rparr>"
  have h1: "sites_list two_site_world = Inr ?r"
    by (simp add: two_site_world_def)
  have h2: "sites ?r = SiteArray [example_site, second_site]"
    by simp
  have h3: "[example_site, second_site] \<noteq> []"
    by simp
  from get_sites_lists_every_site_in_order [OF h1 h2 h3, of JUndefined]
  obtain t count blocks where t:
    "get_sites two_site_world JUndefined = (Inr \<lparr>content = [TextContent t]\<rparr>, [RemoteList])"
    "prefix (''Found '' @ count @ '' sites:'') t"
    "spec_decimal_value count = length [example_site, second_site]"
    "in_order (count # blocks) t"
    "list_all2 (\<lambda>s b. in_order (spec_entry_fields two_site_world s) b)
       [example_site, second_site] blocks"
    by blast
  from t(5) obtain b1 b2 where b: "blocks = [b1, b2]"
    "in_order (spec_entry_fields two_site_world example_site) b1"
    "in_order (spec_entry_fields two_site_world second_site) b2"
    by (auto simp: list_all2_Cons1)
  from t(3) have n: "spec_decimal_value count = 2"
    by simp
  from h1 h3 t(1,2,4) n b show ?thesis
    unfolding example_entry_fields second_entry_fields
    by blast
qed

text \<open>
  C6. When the \<^verbatim>\<open>sites\<close> of the remote list response are an empty array or no array at
  all, \<^verbatim>\<open>get_sites\<close> returns a result with exactly one content item, the text
  \<^verbatim>\<open>No sites found for this account.\<close>
\<close>

theorem get_sites_nothing_to_list:
  assumes "sites_list w = Inr response"
    and "sites response = SiteArray [] \<or> (\<exists>v. sites response = NonArray v)"
  shows "get_sites w args =
           (Inr \<lparr>content = [TextContent ''No sites found for this account.'']\<rparr>, [RemoteList])
         \<and> fst (call_tool w ''get_sites'' args) =
             Inr (ToolOutput \<lparr>content = [TextContent ''No sites found for this account.'']\<rparr>)"
proof -
  from assms have "get_sites_try w = (Inr no_sites_found, [RemoteList])"
    by (auto simp: get_sites_try_def)
  then have "get_sites w args = (Inr no_sites_found, [RemoteList])"
    by (simp add: get_sites_def)
  then show ?thesis
    by (simp add: call_tool_get_sites no_sites_found_def)
qed

theorem get_sites_nothing_to_list_witness:
  "sites_list empty_world = Inr \<lparr>sites = SiteArray []\<rparr>
   \<and> get_sites empty_world JUndefined =
       (Inr \<lparr>content = [TextContent ''No sites found for this account.'']\<rparr>, [RemoteList])
   \<and> sites_list (empty_world\<lparr>sites_list := Inr \<lparr>sites = NonArray JUndefined\<rparr>\<rparr>) =
       Inr \<lparr>sites = NonArray JUndefined\<rparr>
   \<and> get_sites (empty_world\<lparr>sites_list := Inr \<lparr>sites = NonArray JUndefined\<rparr>\<rparr>) JUndefined =
       (Inr \<lparr>content = [TextContent ''No sites found for this account.'']\<rparr>, [RemoteList])"
  using get_sites_nothing_to_list [of empty_world "\<lparr>sites = SiteArray []\<rparr>" JUndefined]
        get_sites_nothing_to_list
          [of "empty_world\<lparr>sites_list := Inr \<lparr>sites = NonArray JUndefined\<rparr>\<rparr>"
              "\<lparr>sites = NonArray JUndefined\<rparr>" JUndefined]
  by (simp add: empty_world_def)

text \<open>
  C7 fails on the code. The claim: a tool name that is not in the handler table makes the
  dispatch handler throw an unknown-tool error. The name \<^verbatim>\<open>toString\<close> is no tool and no
  own property of \<^verbatim>\<open>toolHandlers\<close>, but the property read finds the member of
  \<^verbatim>\<open>Object.prototype\<close>; the test \<^verbatim>\<open>!handler\<close> passes, the member is called, and the
  dispatch handler returns its answer instead of throwing.
\<close>

theorem call_tool_inherited_name_is_answered:
  "''toString'' \<notin> set (map name TOOL_DEFINITIONS)
   \<and> toolHandlers ''toString'' = Inherited ''toString''
   \<and> call_tool w ''toString'' args =
       (Inr (BuiltinOutput (ObjectTag ''[object Undefined]'')), [])"
  by (simp add: TOOL_DEFINITIONS_def toolHandlers_def object_prototype_keys_def
      call_tool_def call_tool_try_def call_inherited_def)

text \<open>
  C8. Every \<^verbatim>\<open>list_tools\<close> request succeeds with the same two descriptors, named
  \<^verbatim>\<open>get_site\<close> and \<^verbatim>\<open>get_sites\<close> in this order, whatever requests the server has
  handled before and whatever their outcome.
\<close>

theorem list_tools_is_static:
  "handle_request w ListTools =
     (Inr (Tools TOOL_DEFINITIONS), [ConsoleError ''Tools requested by client'' None])
   \<and> fst (serve (history @ [(w, ListTools)])) =
       fst (serve history) @ [Inr (Tools TOOL_DEFINITIONS)]
   \<and> map name TOOL_DEFINITIONS = [''get_site'', ''get_sites'']"
proof -
  have "serve [(w, ListTools)] =
      ([Inr (Tools TOOL_DEFINITIONS)], [ConsoleError ''Tools requested by client'' None])"
    by (simp add: list_tools_def)
  then have "fst (serve (history @ [(w, ListTools)])) =
      fst (serve history) @ [Inr (Tools TOOL_DEFINITIONS)]"
    by (simp add: serve_append)
  moreover have "map name TOOL_DEFINITIONS = [''get_site'', ''get_sites'']"
    by (simp add: TOOL_DEFINITIONS_def)
  ultimately show ?thesis
    by (simp add: list_tools_def)
qed

text \<open>
  C9. When the remote fetch of \<^verbatim>\<open>get_site\<close> returns \<^verbatim>\<open>undefined\<close> or \<^verbatim>\<open>null\<close>, the
  handler throws \<^verbatim>\<open>Error("Site not found")\<close> inside its own \<^verbatim>\<open>try\<close> block. This error
  has no \<^verbatim>\<open>code\<close>, so the \<^verbatim>\<open>catch\<close> block throws
  \<^verbatim>\<open>Error("Failed to fetch site details")\<close>: the call fails.
\<close>

theorem absent_site_record_raises_generic_error:
  assumes "get_prop args ''siteId'' = Some (JString siteId)" and "siteId \<noteq> []"
    and "sites_get w siteId = Inr Undefined \<or> sites_get w siteId = Inr Null"
  shows "\<not> isWebflowApiError (Error ''Site not found'')
         \<and> get_site w args =
             (Inl (Error ''Failed to fetch site details''),
              [RemoteGet siteId,
               ConsoleError ''Error fetching site:'' (Some (Error ''Site not found''))])
         \<and> fst (call_tool w ''get_site'' args) = Inl (Error ''Failed to fetch site details'')"
proof -
  from assms(1,2) have "getSite_parse args = Inr siteId"
    by (rule getSite_parse_ok)
  moreover from assms(3)
  have "get_site_try w siteId = (Inl (Error ''Site not found''), [RemoteGet siteId])"
    by (auto simp: get_site_try_def)
  moreover have "get_site_catch siteId (Error ''Site not found'') =
      (Inl (Error ''Failed to fetch site details''),
       [ConsoleError ''Error fetching site:'' (Some (Error ''Site not found''))])"
    by (simp add: get_site_catch_def)
  ultimately have "get_site w args =
             (Inl (Error ''Failed to fetch site details''),
              [RemoteGet siteId,
               ConsoleError ''Error fetching site:'' (Some (Error ''Site not found''))])"
    by (simp add: get_site_def)
  then show ?thesis
    by (simp add: call_tool_get_site)
qed

theorem absent_site_record_raises_generic_error_witness:
  "get_prop (JObject [(''siteId'', JString ''abc123'')]) ''siteId'' = Some (JString ''abc123'')
   \<and> sites_get empty_world ''abc123'' = Inr Undefined
   \<and> fst (call_tool empty_world ''get_site'' (JObject [(''siteId'', JString ''abc123'')])) =
       Inl (Error ''Failed to fetch site details'')"
  using absent_site_record_raises_generic_error
          [of "JObject [(''siteId'', JString ''abc123'')]" "''abc123''" empty_world]
  by (simp add: empty_world_def)

text \<open>
  C10. When the arguments of \<^verbatim>\<open>get_site\<close> do not pass validation, the \<^verbatim>\<open>ZodError\<close> of
  \<^verbatim>\<open>parse\<close> leaves the handler as it is, before any remote call, and the dispatch handler
  throws the same error, with the issues of the validator; it is never the error
  \<^verbatim>\<open>Error("Failed to fetch site details")\<close>.
\<close>

theorem validation_error_reaches_dispatch_unchanged:
  assumes "getSite_parse args = Inl e"
  shows "get_site w args = (Inl e, [])
         \<and> call_tool w ''get_site'' args =
             (Inl e, [ConsoleError ''Error executing tool get_site:'' (Some e)])
         \<and> (\<exists>issues. e = ZodError issues)
         \<and> e \<noteq> Error ''Failed to fetch site details''"
proof -
  from assms have g: "get_site w args = (Inl e, [])"
    by (simp add: get_site_def)
  from assms obtain issues where e: "e = ZodError issues"
    using getSite_parse_error by blast
  from g e show ?thesis
    by (simp add: call_tool_get_site)
qed

theorem validation_error_reaches_dispatch_unchanged_witness:
  "getSite_parse (JObject [(''siteId'', JString '''')]) =
     Inl (ZodError [Too_small [''siteId''] 1 ''Site ID is required''])
   \<and> call_tool offline_world ''get_site'' (JObject [(''siteId'', JString '''')]) =
       (Inl (ZodError [Too_small [''siteId''] 1 ''Site ID is required'']),
        [ConsoleError ''Error executing tool get_site:''
           (Some (ZodError [Too_small [''siteId''] 1 ''Site ID is required'']))])"
  using validation_error_reaches_dispatch_unchanged
          [of "JObject [(''siteId'', JString '''')]"
              "ZodError [Too_small [''siteId''] 1 ''Site ID is required'']" offline_world]
  by (simp add: getSite_parse_def)

end
